theory Spec2Isabelle
  imports Complex_Main
begin

section \<open>Python values, exceptions and string formatting\<close>

text \<open>
  A Python float is a finite number, an infinity or NaN. Finite values stand by their
  numeric value (rounding is not modelled); the comparisons are those of IEEE 754: every
  comparison with NaN is false.
\<close>

datatype pyfloat = Finite real | PosInf | NegInf | NaN

fun float_lt :: "pyfloat \<Rightarrow> pyfloat \<Rightarrow> bool" where
  "float_lt NaN _ = False"
| "float_lt _ NaN = False"
| "float_lt (Finite x) (Finite y) = (x < y)"
| "float_lt NegInf NegInf = False"
| "float_lt NegInf _ = True"
| "float_lt PosInf _ = False"
| "float_lt (Finite x) PosInf = True"
| "float_lt (Finite x) NegInf = False"

fun float_le :: "pyfloat \<Rightarrow> pyfloat \<Rightarrow> bool" where
  "float_le NaN _ = False"
| "float_le _ NaN = False"
| "float_le (Finite x) (Finite y) = (x \<le> y)"
| "float_le NegInf _ = True"
| "float_le _ PosInf = True"
| "float_le PosInf _ = False"
| "float_le (Finite x) NegInf = False"

text \<open>
  The values that travel through a checkpoint dictionary. The model and optimizer state
  dictionaries are opaque and stand as numbered blobs.
\<close>

datatype pyval = VInt int | VFloat pyfloat | VStr string | VBlob nat

text \<open>A dictionary in insertion order; \<open>map_of\<close> is the lookup.\<close>

type_synonym pydict = "(string \<times> pyval) list"

datatype py_error =
    KeyError string
  | ZeroDivisionError
  | TypeError
  | NameError string
  | ValueError string

text \<open>\<^verbatim>\<open>d[k]\<close> raises KeyError on an absent key; \<^verbatim>\<open>d.get(k, dflt)\<close> does not.\<close>

definition dict_item :: "pydict \<Rightarrow> string \<Rightarrow> py_error + pyval" where
  "dict_item d k = (case map_of d k of None \<Rightarrow> Inl (KeyError k) | Some v \<Rightarrow> Inr v)"

definition dict_get :: "pydict \<Rightarrow> string \<Rightarrow> pyval \<Rightarrow> pyval" where
  "dict_get d k dflt = (case map_of d k of None \<Rightarrow> dflt | Some v \<Rightarrow> v)"

text \<open>
  How a value compares against a float: an int by its exact value, a float as itself;
  \<open>None\<close> where Python's \<^verbatim>\<open><\<close> against a float raises.
\<close>

fun num_of :: "pyval \<Rightarrow> pyfloat option" where
  "num_of (VInt i) = Some (Finite (of_int i))"
| "num_of (VFloat r) = Some r"
| "num_of (VStr s) = None"
| "num_of (VBlob b) = None"

text \<open>
  \<^verbatim>\<open>min(valid_loss, best_loss)\<close>: the builtin keeps its first argument unless the second
  is strictly smaller, and returns the object itself (an int stays an int). With a NaN on
  either side the comparison is false and the first argument is returned.
\<close>

definition py_min :: "pyfloat \<Rightarrow> pyval \<Rightarrow> py_error + pyval" where
  "py_min v b =
     (case num_of b of
        None \<Rightarrow> Inl TypeError
      | Some r \<Rightarrow> Inr (if float_lt r v then b else VFloat v))"

text \<open>Python's \<^verbatim>\<open><=\<close> on two values, \<open>False\<close> where it does not hold or is not defined.\<close>

definition py_le :: "pyval \<Rightarrow> pyval \<Rightarrow> bool" where
  "py_le a b =
     (case (num_of a, num_of b) of
        (Some x, Some y) \<Rightarrow> float_le x y
      | _ \<Rightarrow> False)"

definition digit_char :: "nat \<Rightarrow> char" where
  "digit_char d = ''0123456789'' ! (d mod 10)"

text \<open>\<^verbatim>\<open>str(n)\<close> for a non-negative integer.\<close>

fun str_nat :: "nat \<Rightarrow> string" where
  "str_nat n = (if n < 10 then [digit_char n] else str_nat (n div 10) @ [digit_char (n mod 10)])"

declare str_nat.simps [simp del]

text \<open>\<^verbatim>\<open>"%04d" % n\<close> for a non-negative integer: zero padded to a width of at least 4.\<close>

definition fmt_04d :: "nat \<Rightarrow> string" where
  "fmt_04d n = replicate (4 - length (str_nat n)) (CHR ''0'') @ str_nat n"

text \<open>\<^verbatim>\<open>os.path.join(a, b)\<close> on POSIX, for two components.\<close>

definition path_join :: "string \<Rightarrow> string \<Rightarrow> string" where
  "path_join a b =
     (if b \<noteq> [] \<and> hd b = CHR ''/'' then b
      else if a = [] \<or> last a = CHR ''/'' then a @ b
      else a @ ''/'' @ b)"

section \<open>Effects as a trace\<close>

datatype arch = ResUnet | ResUnetPlusPlus

text \<open>
  Every effect of the two scripts that a claim speaks about is an event; a run yields the
  list of its events in program order together with its outcome.
\<close>

datatype event =
    Makedirs string
  | BuildModel arch
  | PrintLoadingResunetPP
  | PrintLoading string
  | LoadModelState pyval
  | LoadOptimizerState pyval
  | PrintLoaded string pyval
  | PrintNoCheckpoint string
  | PrintEpoch int int
  | TrainBatch int nat nat
  | Validation nat
  | SchedulerStep pyfloat
  | TorchSave string pydict
  | PrintSaved string
  | ImWrite string
  | PrintResults

type_synonym 'a run = "event list \<times> (py_error + 'a)"

text \<open>Sequencing: an exception stops the run and keeps the events already produced.\<close>

definition bind_run :: "'a run \<Rightarrow> ('a \<Rightarrow> 'b run) \<Rightarrow> 'b run" where
  "bind_run m f =
     (case m of
        (ev, Inl e) \<Rightarrow> (ev, Inl e)
      | (ev, Inr x) \<Rightarrow> (case f x of (ev', r) \<Rightarrow> (ev @ ev', r)))"

section \<open>train.py\<close>

text \<open>The fields of \<^verbatim>\<open>hp\<close> that \<^verbatim>\<open>main\<close> reads (\<^verbatim>\<open>hp.log\<close> is \<open>log_hp\<close>).\<close>

record hparams =
  checkpoints :: string
  log_hp :: string
  RESNET_PLUS_PLUS :: bool
  lr :: real
  batch_size :: nat
  validation_interval :: int

text \<open>
  The collaborators whose code is not part of the control loop: the number of batches the
  training loader yields in one pass, the loss that \<^verbatim>\<open>validation\<close> returns when called
  at a given step, and the model and optimizer state dictionaries at that step.
\<close>

record collab =
  n_batches :: nat
  valid_loss :: "nat \<Rightarrow> pyfloat"
  model_state :: "nat \<Rightarrow> nat"
  optim_state :: "nat \<Rightarrow> nat"

text \<open>The file system as far as \<^verbatim>\<open>os.path.isfile\<close> and \<^verbatim>\<open>torch.load\<close> see it.\<close>

type_synonym filesystem = "string \<rightharpoonup> pydict"

definition checkpoint_dir :: "hparams \<Rightarrow> string \<Rightarrow> string" where
  "checkpoint_dir hp name = checkpoints hp @ ''/'' @ name"

definition save_path :: "hparams \<Rightarrow> string \<Rightarrow> nat \<Rightarrow> string" where
  "save_path hp name step =
     path_join (checkpoint_dir hp name) (name @ ''_checkpoint_'' @ fmt_04d step @ ''.pt'')"

text \<open>The dictionary handed to \<^verbatim>\<open>torch.save\<close> (lines 194 to 201).\<close>

definition checkpoint_record :: "collab \<Rightarrow> nat \<Rightarrow> int \<Rightarrow> pyval \<Rightarrow> pydict" where
  "checkpoint_record c step epoch best_loss =
     [(''step'', VInt (int step)),
      (''epoch'', VInt epoch),
      (''arch'', VStr ''ResUnet''),
      (''state_dict'', VBlob (model_state c step)),
      (''best_loss'', best_loss),
      (''optimizer'', VBlob (optim_state c step))]"

text \<open>
  One pass through the body of the inner loop (lines 149 to 206) on the state
  \<open>(step, best_loss)\<close>. \<^verbatim>\<open>step % hp.validation_interval\<close> raises on a zero interval.
\<close>

definition train_batch ::
  "collab \<Rightarrow> hparams \<Rightarrow> string \<Rightarrow> int \<Rightarrow> nat \<Rightarrow> nat \<times> pyval \<Rightarrow> (nat \<times> pyval) run" where
  "train_batch c hp name epoch idx st =
     (case st of (step, best_loss) \<Rightarrow>
        if validation_interval hp = 0 then ([TrainBatch epoch idx step], Inl ZeroDivisionError)
        else if int step mod validation_interval hp = 0 then
          bind_run
            ([TrainBatch epoch idx step, Validation step, SchedulerStep (valid_loss c step)],
             py_min (valid_loss c step) best_loss)
            (\<lambda>best_loss'.
               ([TorchSave (save_path hp name step) (checkpoint_record c step epoch best_loss'),
                 PrintSaved (save_path hp name step)],
                Inr (step + 1, best_loss')))
        else ([TrainBatch epoch idx step], Inr (step + 1, best_loss)))"

text \<open>\<^verbatim>\<open>for idx, data in enumerate(loader)\<close>.\<close>

fun train_epoch ::
  "collab \<Rightarrow> hparams \<Rightarrow> string \<Rightarrow> int \<Rightarrow> nat list \<Rightarrow> nat \<times> pyval \<Rightarrow> (nat \<times> pyval) run" where
  "train_epoch c hp name epoch [] st = ([], Inr st)"
| "train_epoch c hp name epoch (idx # idxs) st =
     bind_run (train_batch c hp name epoch idx st) (train_epoch c hp name epoch idxs)"

text \<open>\<^verbatim>\<open>for epoch in range(start_epoch, num_epochs)\<close>, over the list of epochs.\<close>

fun run_epochs ::
  "collab \<Rightarrow> hparams \<Rightarrow> string \<Rightarrow> int \<Rightarrow> int list \<Rightarrow> nat \<times> pyval \<Rightarrow> (nat \<times> pyval) run" where
  "run_epochs c hp name num_epochs [] st = ([], Inr st)"
| "run_epochs c hp name num_epochs (epoch # epochs) st =
     bind_run
       (bind_run ([PrintEpoch epoch (num_epochs - 1)], Inr ())
          (\<lambda>_. train_epoch c hp name epoch [0..<n_batches c] st))
       (run_epochs c hp name num_epochs epochs)"

text \<open>
  Lines 134 to 206: the counter starts at 0 whatever was loaded; a start epoch that is not
  an integer makes \<^verbatim>\<open>range\<close> raise.
\<close>

definition training_loop ::
  "collab \<Rightarrow> hparams \<Rightarrow> string \<Rightarrow> int \<Rightarrow> pyval \<Rightarrow> pyval \<Rightarrow> (nat \<times> pyval) run" where
  "training_loop c hp name num_epochs start_epoch best_loss =
     (case start_epoch of
        VInt e \<Rightarrow> run_epochs c hp name num_epochs [e..num_epochs - 1] (0, best_loss)
      | _ \<Rightarrow> ([], Inl TypeError))"

text \<open>Lines 41 to 52: directories and the model selected by the configuration.\<close>

definition setup_events :: "hparams \<Rightarrow> string \<Rightarrow> event list" where
  "setup_events hp name =
     [Makedirs (checkpoint_dir hp name), Makedirs (log_hp hp @ ''/'' @ name)] @
     (if RESNET_PLUS_PLUS hp then [BuildModel ResUnetPlusPlus, PrintLoadingResunetPP]
      else [BuildModel ResUnet])"

text \<open>
  Lines 66 to 86, returning \<open>(start_epoch, best_loss)\<close>. The message of the last branch
  reads the module-level name \<^verbatim>\<open>args\<close>, which exists only when the file runs as a
  script: \<open>args_resume\<close> is \<open>None\<close> where the name is unbound.
\<close>

definition resume_block :: "filesystem \<Rightarrow> string \<Rightarrow> string option \<Rightarrow> (pyval \<times> pyval) run" where
  "resume_block fs resume args_resume =
     (if resume = [] then ([], Inr (VInt 0, VInt 999))
      else case fs resume of
        Some checkpoint \<Rightarrow>
          bind_run ([PrintLoading resume], dict_item checkpoint ''epoch'') (\<lambda>start_epoch.
          bind_run ([], dict_item checkpoint ''best_loss'') (\<lambda>best_loss.
          bind_run ([], dict_item checkpoint ''state_dict'') (\<lambda>sd.
          bind_run ([LoadModelState sd], dict_item checkpoint ''optimizer'') (\<lambda>opt.
          bind_run ([LoadOptimizerState opt], dict_item checkpoint ''epoch'') (\<lambda>ep.
            ([PrintLoaded resume ep], Inr (start_epoch, best_loss)))))))
      | None \<Rightarrow>
          (case args_resume of
             None \<Rightarrow> ([], Inl (NameError ''args''))
           | Some a \<Rightarrow> ([PrintNoCheckpoint a], Inr (VInt 0, VInt 999))))"

text \<open>\<^verbatim>\<open>main(hp, num_epochs, resume, name)\<close> of train.py.\<close>

definition train_main ::
  "collab \<Rightarrow> filesystem \<Rightarrow> hparams \<Rightarrow> int \<Rightarrow> string \<Rightarrow> string \<Rightarrow> string option \<Rightarrow>
   (nat \<times> pyval) run" where
  "train_main c fs hp num_epochs resume name args_resume =
     bind_run
       (bind_run (setup_events hp name, Inr ()) (\<lambda>_. resume_block fs resume args_resume))
       (\<lambda>(start_epoch, best_loss). training_loop c hp name num_epochs start_epoch best_loss)"

text \<open>
  The script entry point: \<^verbatim>\<open>args = parser.parse_args()\<close> binds the module-level name and
  \<^verbatim>\<open>main\<close> is called with \<^verbatim>\<open>resume=args.resume\<close>.
\<close>

definition train_cli ::
  "collab \<Rightarrow> filesystem \<Rightarrow> hparams \<Rightarrow> int \<Rightarrow> string \<Rightarrow> string \<Rightarrow> (nat \<times> pyval) run" where
  "train_cli c fs hp num_epochs resume name =
     train_main c fs hp num_epochs resume name (Some resume)"

subsection \<open>Reading a trace\<close>

fun step_of_event :: "event \<Rightarrow> nat list" where
  "step_of_event (TrainBatch e i s) = [s]"
| "step_of_event _ = []"

text \<open>The step counter values of the processed batches, in order.\<close>

definition emitted_steps :: "event list \<Rightarrow> nat list" where
  "emitted_steps tr = concat (map step_of_event tr)"

fun saved_of_event :: "event \<Rightarrow> (string \<times> pydict) list" where
  "saved_of_event (TorchSave p r) = [(p, r)]"
| "saved_of_event _ = []"

text \<open>The checkpoints written, in order: path and record.\<close>

definition saved_checkpoints :: "event list \<Rightarrow> (string \<times> pydict) list" where
  "saved_checkpoints tr = concat (map saved_of_event tr)"

text \<open>
  The \<^verbatim>\<open>best_loss\<close> entries of the records written, in order (a record without the
  entry would contribute nothing).
\<close>

definition best_loss_of_record :: "string \<times> pydict \<Rightarrow> pyval list" where
  "best_loss_of_record pr = (case map_of (snd pr) ''best_loss'' of None \<Rightarrow> [] | Some v \<Rightarrow> [v])"

definition saved_best_losses :: "event list \<Rightarrow> pyval list" where
  "saved_best_losses tr = concat (map best_loss_of_record (saved_checkpoints tr))"

text \<open>
  The validation, scheduler and checkpoint events of a trace, in order; of a written
  record only the \<^verbatim>\<open>step\<close> entry is kept.
\<close>

datatype ctl_event = CValidation nat | CSched pyfloat | CSave string "pyval option"

fun ctl_of_event :: "event \<Rightarrow> ctl_event list" where
  "ctl_of_event (Validation s) = [CValidation s]"
| "ctl_of_event (SchedulerStep v) = [CSched v]"
| "ctl_of_event (TorchSave p r) = [CSave p (map_of r ''step'')]"
| "ctl_of_event _ = []"

definition control_events :: "event list \<Rightarrow> ctl_event list" where
  "control_events tr = concat (map ctl_of_event tr)"


section \<open>eval.py\<close>

text \<open>
  A metric value is a Python float or a zero-dimensional array (tensor); dividing a
  Python float by zero raises, dividing an array by zero yields a non-finite array.
\<close>

datatype number = PyFloat real | ArrayVal real | ArrayNonFinite

fun num_scale :: "number \<Rightarrow> nat \<Rightarrow> number" where
  "num_scale (PyFloat r) n = PyFloat (r * real n)"
| "num_scale (ArrayVal r) n = ArrayVal (r * real n)"
| "num_scale ArrayNonFinite n = ArrayNonFinite"

fun num_add :: "number \<Rightarrow> number \<Rightarrow> number" where
  "num_add (PyFloat a) (PyFloat b) = PyFloat (a + b)"
| "num_add (PyFloat a) (ArrayVal b) = ArrayVal (a + b)"
| "num_add (ArrayVal a) (PyFloat b) = ArrayVal (a + b)"
| "num_add (ArrayVal a) (ArrayVal b) = ArrayVal (a + b)"
| "num_add _ _ = ArrayNonFinite"

fun num_div :: "number \<Rightarrow> nat \<Rightarrow> py_error + number" where
  "num_div (PyFloat a) n = (if n = 0 then Inl ZeroDivisionError else Inr (PyFloat (a / real n)))"
| "num_div (ArrayVal a) n = Inr (if n = 0 then ArrayNonFinite else ArrayVal (a / real n))"
| "num_div ArrayNonFinite n = Inr ArrayNonFinite"

text \<open>\<^verbatim>\<open>pixel_correct / pixel_total\<close>: both are Python numbers.\<close>

definition py_truediv :: "real \<Rightarrow> nat \<Rightarrow> py_error + real" where
  "py_truediv a n = (if n = 0 then Inl ZeroDivisionError else Inr (a / real n))"

text \<open>
  What the loop reads of one batch: \<^verbatim>\<open>inputs.size(0)\<close>, the two metric values, the
  number of equal pixels and \<^verbatim>\<open>torch.numel(labels)\<close>.
\<close>

record batch =
  bsize :: nat
  dice :: number
  hd95 :: number
  n_equal :: real
  numel :: nat

record eval_acc =
  dice_sum :: number
  hd95_sum :: number
  pixel_correct :: real
  pixel_total :: nat
  num_samples :: nat

definition out_filename :: "string \<Rightarrow> nat \<Rightarrow> nat \<Rightarrow> nat \<Rightarrow> string" where
  "out_filename result_folder batch_idx sz i =
     path_join result_folder (''sample_'' @ str_nat (batch_idx * sz + i) @ ''.png'')"

text \<open>Lines 42 to 91, one batch: the sums, then one image per sample of the batch.\<close>

definition eval_batch :: "string \<Rightarrow> nat \<Rightarrow> batch \<Rightarrow> eval_acc \<Rightarrow> event list \<times> eval_acc" where
  "eval_batch result_folder batch_idx b a =
     (map (\<lambda>i. ImWrite (out_filename result_folder batch_idx (bsize b) i)) [0..<bsize b],
      a\<lparr>dice_sum := num_add (dice_sum a) (num_scale (dice b) (bsize b)),
        hd95_sum := num_add (hd95_sum a) (num_scale (hd95 b) (bsize b)),
        num_samples := num_samples a + bsize b,
        pixel_correct := pixel_correct a + n_equal b,
        pixel_total := pixel_total a + numel b\<rparr>)"

fun eval_batches :: "string \<Rightarrow> nat \<Rightarrow> batch list \<Rightarrow> eval_acc \<Rightarrow> event list \<times> eval_acc" where
  "eval_batches result_folder batch_idx [] a = ([], a)"
| "eval_batches result_folder batch_idx (b # bs) a =
     (case eval_batch result_folder batch_idx b a of
        (ev, a') \<Rightarrow>
          (case eval_batches result_folder (batch_idx + 1) bs a' of
             (ev', a'') \<Rightarrow> (ev @ ev', a'')))"

definition eval_init :: eval_acc where
  "eval_init = \<lparr>dice_sum = PyFloat 0, hd95_sum = PyFloat 0, pixel_correct = 0,
                pixel_total = 0, num_samples = 0\<rparr>"

text \<open>\<^verbatim>\<open>evaluate(model, test_loader, device, result_folder)\<close> over the batches of the loader.\<close>

definition evaluate :: "string \<Rightarrow> batch list \<Rightarrow> (number \<times> number \<times> real) run" where
  "evaluate result_folder batches =
     (case eval_batches result_folder 0 batches eval_init of
        (ev, a) \<Rightarrow>
          bind_run (Makedirs result_folder # ev, num_div (dice_sum a) (num_samples a)) (\<lambda>avg_dice.
          bind_run ([], num_div (hd95_sum a) (num_samples a)) (\<lambda>avg_hd95.
          bind_run ([], py_truediv (pixel_correct a) (pixel_total a)) (\<lambda>accuracy.
            ([], Inr (avg_dice, avg_hd95, accuracy))))))"

text \<open>Lines 123 to 129 of \<^verbatim>\<open>main\<close> in eval.py.\<close>

definition load_checkpoint_eval :: "filesystem \<Rightarrow> string \<Rightarrow> unit run" where
  "load_checkpoint_eval fs model_path =
     (case fs model_path of
        Some checkpoint \<Rightarrow>
          bind_run ([PrintLoading model_path], dict_item checkpoint ''state_dict'') (\<lambda>sd.
            ([LoadModelState sd,
              PrintLoaded model_path (dict_get checkpoint ''epoch'' (VStr ''N/A''))], Inr ()))
      | None \<Rightarrow> ([], Inl (ValueError (''Checkpoint not found: '' @ model_path))))"

definition eval_main ::
  "filesystem \<Rightarrow> hparams \<Rightarrow> string \<Rightarrow> string \<Rightarrow> batch list \<Rightarrow> (number \<times> number \<times> real) run" where
  "eval_main fs hp model_path output batches =
     bind_run
       ([BuildModel (if RESNET_PLUS_PLUS hp then ResUnetPlusPlus else ResUnet)], Inr ())
       (\<lambda>_. bind_run (load_checkpoint_eval fs model_path)
          (\<lambda>_. bind_run (evaluate output batches) (\<lambda>res. ([PrintResults], Inr res))))"

fun file_of_event :: "event \<Rightarrow> string list" where
  "file_of_event (ImWrite f) = [f]"
| "file_of_event _ = []"

text \<open>The image files written, in order.\<close>

definition written_files :: "event list \<Rightarrow> string list" where
  "written_files tr = concat (map file_of_event tr)"

section \<open>Invariants of the training loop\<close>


text \<open>Every record written in a trace carries the architecture name \<^verbatim>\<open>ResUnet\<close>.\<close>

definition arch_ok :: "event list \<Rightarrow> bool" where
  "arch_ok tr = (\<forall>p r. TorchSave p r \<in> set tr \<longrightarrow> map_of r ''arch'' = Some (VStr ''ResUnet''))"

text \<open>
  The invariant of the loops for \<^verbatim>\<open>best_loss\<close> when no validation loss is NaN: the
  values written never increase and are at least the value the run ends with; they are at
  most the value the run started from when that value is ordered (not NaN).
\<close>

definition mono_run :: "nat \<times> pyval \<Rightarrow> (nat \<times> pyval) run \<Rightarrow> bool" where
  "mono_run st r =
     (sorted_wrt (\<lambda>x y. py_le y x) (saved_best_losses (fst r)) \<and>
      length (saved_best_losses (fst r)) = length (saved_checkpoints (fst r)) \<and>
      (py_le (snd st) (snd st) \<longrightarrow>
         (\<forall>x \<in> set (saved_best_losses (fst r)). py_le x (snd st))) \<and>
      (\<forall>st'. snd r = Inr st' \<longrightarrow>
         (snd st' = snd st \<or>
          py_le (snd st') (snd st') \<and>
          (py_le (snd st) (snd st) \<longrightarrow> py_le (snd st') (snd st))) \<and>
         (\<forall>x \<in> set (saved_best_losses (fst r)). py_le (snd st') x)))"


section \<open>Concrete inputs\<close>

definition hp0 :: hparams where
  "hp0 = \<lparr>checkpoints = ''checkpoints'', log_hp = ''logs'', RESNET_PLUS_PLUS = True,
          lr = 1 / 1000, batch_size = 4, validation_interval = 5\<rparr>"

text \<open>Two batches per epoch; every validation returns the loss 1000.\<close>

definition c0 :: collab where
  "c0 = \<lparr>n_batches = 2, valid_loss = (\<lambda>s. Finite 1000), model_state = (\<lambda>s. s),
         optim_state = (\<lambda>s. s)\<rparr>"

text \<open>Six batches per epoch; the validation loss falls with the step.\<close>

definition c1 :: collab where
  "c1 = \<lparr>n_batches = 6, valid_loss = (\<lambda>s. Finite (1 / (1 + real s))), model_state = (\<lambda>s. s),
         optim_state = (\<lambda>s. s)\<rparr>"

text \<open>
  Six batches per epoch; the validation at step 0 returns 0.5, the one at step 5 NaN and
  every later one 0.75.
\<close>

definition c_nan :: collab where
  "c_nan = \<lparr>n_batches = 6,
            valid_loss = (\<lambda>s. if s = 0 then Finite (1 / 2) else if s = 5 then NaN
                               else Finite (3 / 4)),
            model_state = (\<lambda>s. s), optim_state = (\<lambda>s. s)\<rparr>"

text \<open>A record as the training loop writes it at step 40 of epoch 3.\<close>

definition ck40 :: pydict where
  "ck40 = [(''step'', VInt 40), (''epoch'', VInt 3), (''arch'', VStr ''ResUnet''),
           (''state_dict'', VBlob 40), (''best_loss'', VFloat (Finite (1 / 4))),
           (''optimizer'', VBlob 40)]"

text \<open>The same record without its \<^verbatim>\<open>epoch\<close> entry.\<close>

definition ck_noepoch :: pydict where
  "ck_noepoch = [(''step'', VInt 40), (''arch'', VStr ''ResUnet''),
                 (''state_dict'', VBlob 40), (''best_loss'', VFloat (Finite (1 / 4))),
                 (''optimizer'', VBlob 40)]"

definition fs40 :: filesystem where
  "fs40 = (\<lambda>p. if p = ''ck.pt'' then Some ck40 else None)"

definition fs_noepoch :: filesystem where
  "fs_noepoch = (\<lambda>p. if p = ''ck.pt'' then Some ck_noepoch else None)"

text \<open>Six test samples loaded with a batch size of 4: a batch of 4, then a batch of 2.\<close>

definition batches_4_2 :: "batch list" where
  "batches_4_2 =
     [\<lparr>bsize = 4, dice = ArrayVal 1, hd95 = PyFloat 0, n_equal = 4, numel = 4\<rparr>,
      \<lparr>bsize = 2, dice = ArrayVal 1, hd95 = PyFloat 0, n_equal = 2, numel = 2\<rparr>]"

section \<open>Sequencing and projections\<close>

lemma bind_run_Inl: "bind_run (ev, Inl e) f = (ev, Inl e)"
  by (simp add: bind_run_def)

lemma bind_run_Inr: "bind_run (ev, Inr x) f = (ev @ fst (f x), snd (f x))"
  by (simp add: bind_run_def split: prod.splits)

lemma fst_bind_run:
  "fst (bind_run m f) = (case snd m of Inl e \<Rightarrow> fst m | Inr x \<Rightarrow> fst m @ fst (f x))"
  by (cases m) (simp add: bind_run_def split: sum.splits prod.splits)

lemma snd_bind_run:
  "snd (bind_run m f) = (case snd m of Inl e \<Rightarrow> Inl e | Inr x \<Rightarrow> snd (f x))"
  by (cases m) (simp add: bind_run_def split: sum.splits prod.splits)

lemma bind_run_prefix: "\<exists>rest. fst (bind_run m f) = fst m @ rest"
  by (simp add: fst_bind_run split: sum.splits)

lemma emitted_steps_append: "emitted_steps (xs @ ys) = emitted_steps xs @ emitted_steps ys"
  by (simp add: emitted_steps_def)

lemma saved_checkpoints_append:
  "saved_checkpoints (xs @ ys) = saved_checkpoints xs @ saved_checkpoints ys"
  by (simp add: saved_checkpoints_def)

lemma saved_best_losses_append:
  "saved_best_losses (xs @ ys) = saved_best_losses xs @ saved_best_losses ys"
  by (simp add: saved_best_losses_def saved_checkpoints_append)


text \<open>The loop body, case by case.\<close>

lemma train_batch_zero:
  "validation_interval hp = 0 \<Longrightarrow>
   train_batch c hp name e i (s, b) = ([TrainBatch e i s], Inl ZeroDivisionError)"
  by (simp add: train_batch_def)

lemma train_batch_skip:
  "validation_interval hp \<noteq> 0 \<Longrightarrow> int s mod validation_interval hp \<noteq> 0 \<Longrightarrow>
   train_batch c hp name e i (s, b) = ([TrainBatch e i s], Inr (Suc s, b))"
  by (simp add: train_batch_def)

lemma train_batch_valid:
  "validation_interval hp \<noteq> 0 \<Longrightarrow> int s mod validation_interval hp = 0 \<Longrightarrow>
   py_min (valid_loss c s) b = Inr b' \<Longrightarrow>
   train_batch c hp name e i (s, b) =
     ([TrainBatch e i s, Validation s, SchedulerStep (valid_loss c s),
       TorchSave (save_path hp name s) (checkpoint_record c s e b'),
       PrintSaved (save_path hp name s)],
      Inr (Suc s, b'))"
  by (simp add: train_batch_def bind_run_def)

lemma train_batch_type_error:
  "validation_interval hp \<noteq> 0 \<Longrightarrow> int s mod validation_interval hp = 0 \<Longrightarrow>
   py_min (valid_loss c s) b = Inl err \<Longrightarrow>
   train_batch c hp name e i (s, b) =
     ([TrainBatch e i s, Validation s, SchedulerStep (valid_loss c s)], Inl err)"
  by (simp add: train_batch_def bind_run_def)

lemma train_batch_cases:
  obtains
    (zero) "validation_interval hp = 0"
      "train_batch c hp name e i (s, b) = ([TrainBatch e i s], Inl ZeroDivisionError)"
  | (skip) "validation_interval hp \<noteq> 0" "int s mod validation_interval hp \<noteq> 0"
      "train_batch c hp name e i (s, b) = ([TrainBatch e i s], Inr (Suc s, b))"
  | (valid) b' where "validation_interval hp \<noteq> 0" "int s mod validation_interval hp = 0"
      "py_min (valid_loss c s) b = Inr b'"
      "train_batch c hp name e i (s, b) =
         ([TrainBatch e i s, Validation s, SchedulerStep (valid_loss c s),
           TorchSave (save_path hp name s) (checkpoint_record c s e b'),
           PrintSaved (save_path hp name s)],
          Inr (Suc s, b'))"
  | (type_error) err where "validation_interval hp \<noteq> 0" "int s mod validation_interval hp = 0"
      "py_min (valid_loss c s) b = Inl err"
      "train_batch c hp name e i (s, b) =
         ([TrainBatch e i s, Validation s, SchedulerStep (valid_loss c s)], Inl err)"
proof (cases "validation_interval hp = 0")
  case True
  show ?thesis by (rule zero [OF True train_batch_zero [OF True]])
next
  case nz: False
  show ?thesis
  proof (cases "int s mod validation_interval hp = 0")
    case False
    show ?thesis by (rule skip [OF nz False train_batch_skip [OF nz False]])
  next
    case True
    show ?thesis
    proof (cases "py_min (valid_loss c s) b")
      case (Inl err)
      show ?thesis by (rule type_error [OF nz True Inl train_batch_type_error [OF nz True Inl]])
    next
      case (Inr b')
      show ?thesis by (rule valid [OF nz True Inr train_batch_valid [OF nz True Inr]])
    qed
  qed
qed

lemma loops_lift:
  assumes bind: "\<And>st (m :: (nat \<times> pyval) run) f.
            P st m \<Longrightarrow> (\<And>st'. snd m = Inr st' \<Longrightarrow> P st' (f st')) \<Longrightarrow> P st (bind_run m f)"
    and ret: "\<And>st. P st ([], Inr st)"
    and batch: "\<And>e i st. P st (train_batch c hp name e i st)"
    and banner: "\<And>st e r. P st r \<Longrightarrow> P st (bind_run ([PrintEpoch e n], Inr ()) (\<lambda>_. r))"
  shows "P st (train_epoch c hp name e idxs st)"
    and "P st (run_epochs c hp name (n + 1) es st)"
proof -
  show ep: "P st (train_epoch c hp name e idxs st)" for e idxs st
  proof (induction idxs arbitrary: st)
    case Nil
    show ?case by (simp add: ret)
  next
    case (Cons i idxs)
    show ?case
      unfolding train_epoch.simps
      by (rule bind [OF batch Cons.IH])
  qed
  show "P st (run_epochs c hp name (n + 1) es st)"
  proof (induction es arbitrary: st)
    case Nil
    show ?case by (simp add: ret)
  next
    case (Cons e es)
    have "P st (bind_run ([PrintEpoch e n], Inr ())
                  (\<lambda>_. train_epoch c hp name e [0..<n_batches c] st))"
      by (rule banner [OF ep])
    then show ?case
      unfolding run_epochs.simps
      by (simp add: bind Cons.IH)
  qed
qed

lemma arch_ok_append: "arch_ok (xs @ ys) = (arch_ok xs \<and> arch_ok ys)"
  by (auto simp: arch_ok_def)

lemma arch_ok_bind:
  "arch_ok (fst m) \<Longrightarrow> (\<And>x. snd m = Inr x \<Longrightarrow> arch_ok (fst (f x))) \<Longrightarrow>
   arch_ok (fst (bind_run m f))"
  by (simp add: fst_bind_run arch_ok_append split: sum.splits)

lemma arch_ok_train_batch_pair: "arch_ok (fst (train_batch c hp name e i (s, b)))"
  by (cases rule: train_batch_cases [where hp = hp and c = c and s = s and b = b and name = name and e = e and i = i])
     (simp_all add: arch_ok_def checkpoint_record_def)

lemma arch_ok_train_batch: "arch_ok (fst (train_batch c hp name e i st))"
  by (cases st) (simp add: arch_ok_train_batch_pair)

lemma arch_ok_run_epochs: "arch_ok (fst (run_epochs c hp name n es st))"
proof -
  have "arch_ok (fst (run_epochs c hp name ((n - 1) + 1) es st))"
  proof (rule loops_lift(2) [where P = "\<lambda>st r. arch_ok (fst r)"])
    show "arch_ok (fst ([], Inr st))" for st :: "nat \<times> pyval"
      by (simp add: arch_ok_def)
    show "arch_ok (fst (bind_run ([PrintEpoch e (n - 1)], Inr ()) (\<lambda>_. r)))"
      if "arch_ok (fst r)" for e and r :: "(nat \<times> pyval) run"
      using that by (simp add: bind_run_Inr arch_ok_def)
  qed (simp_all add: arch_ok_bind arch_ok_train_batch)
  then show ?thesis by simp
qed

lemma float_le_trans: "float_le a b \<Longrightarrow> float_le b c \<Longrightarrow> float_le a c"
  by (cases a; cases b; cases c) simp_all

lemma float_le_refl: "a \<noteq> NaN \<Longrightarrow> float_le a a"
  by (cases a) simp_all

lemma float_le_not_nan: "float_le a b \<Longrightarrow> a \<noteq> NaN \<and> b \<noteq> NaN"
  by (cases a; cases b) simp_all

lemma float_lt_not_nan: "float_lt a b \<Longrightarrow> a \<noteq> NaN \<and> b \<noteq> NaN"
  by (cases a; cases b) simp_all

lemma float_le_total: "a \<noteq> NaN \<Longrightarrow> b \<noteq> NaN \<Longrightarrow> \<not> float_lt a b \<Longrightarrow> float_le b a"
  by (cases a; cases b) simp_all

lemma py_le_float:
  "py_le a b = (\<exists>x y. num_of a = Some x \<and> num_of b = Some y \<and> float_le x y)"
  by (simp add: py_le_def split: option.splits)

lemma py_le_trans: "py_le a b \<Longrightarrow> py_le b c \<Longrightarrow> py_le a c"
  unfolding py_le_float using float_le_trans by fastforce

lemma py_le_self: "py_le a b \<Longrightarrow> py_le a a"
  unfolding py_le_float using float_le_not_nan float_le_refl by fastforce

lemma py_min_cases:
  assumes "py_min v b = Inr b'"
  obtains r where "num_of b = Some r" "float_lt r v" "b' = b"
  | r where "num_of b = Some r" "\<not> float_lt r v" "b' = VFloat v"
  using assms by (auto simp: py_min_def split: option.splits if_splits)

lemma py_le_refl_num: "num_of a = Some x \<Longrightarrow> x \<noteq> NaN \<Longrightarrow> py_le a a"
  by (simp add: py_le_float float_le_refl)

lemma py_min_le:
  assumes "py_min v b = Inr b'" "v \<noteq> NaN"
  shows "py_le b' b'" and "py_le b b \<Longrightarrow> py_le b' b"
proof -
  show "py_le b' b'"
  proof (cases rule: py_min_cases [OF assms(1)])
    case (1 r)
    have "r \<noteq> NaN" using float_lt_not_nan [OF 1(2)] by simp
    then show ?thesis using 1 by (simp add: py_le_refl_num)
  next
    case (2 r)
    then show ?thesis using assms(2) by (simp add: py_le_float float_le_refl)
  qed
  show "py_le b' b" if bb: "py_le b b"
  proof (cases rule: py_min_cases [OF assms(1)])
    case (1 r)
    then show ?thesis using bb by simp
  next
    case (2 r)
    have "r \<noteq> NaN" using bb 2(1) float_le_not_nan [of r r] by (simp add: py_le_float)
    then have "float_le v r" using float_le_total [of r v] assms(2) 2(2) by simp
    then show ?thesis using 2 by (simp add: py_le_float)
  qed
qed

lemma mono_run_bind:
  assumes m: "mono_run st m"
    and f: "\<And>st'. snd m = Inr st' \<Longrightarrow> mono_run st' (f st')"
  shows "mono_run st (bind_run m f)"
proof (cases "snd m")
  case (Inl e)
  then show ?thesis using m
    by (simp add: mono_run_def fst_bind_run snd_bind_run)
next
  case (Inr st1)
  note f1 = f [OF Inr]
  let ?L1 = "saved_best_losses (fst m)"
  let ?L2 = "saved_best_losses (fst (f st1))"
  have L: "saved_best_losses (fst (bind_run m f)) = ?L1 @ ?L2"
    using Inr by (simp add: fst_bind_run saved_best_losses_append)
  have C: "saved_checkpoints (fst (bind_run m f)) =
      saved_checkpoints (fst m) @ saved_checkpoints (fst (f st1))"
    using Inr by (simp add: fst_bind_run saved_checkpoints_append)
  have S: "snd (bind_run m f) = snd (f st1)"
    using Inr by (simp add: snd_bind_run)
  have s1: "sorted_wrt (\<lambda>x y. py_le y x) ?L1"
    and len1: "length ?L1 = length (saved_checkpoints (fst m))"
    using m by (simp_all add: mono_run_def)
  have s2: "sorted_wrt (\<lambda>x y. py_le y x) ?L2"
    and len2: "length ?L2 = length (saved_checkpoints (fst (f st1)))"
    using f1 by (simp_all add: mono_run_def)
  have b1: "py_le x (snd st)" if "py_le (snd st) (snd st)" "x \<in> set ?L1" for x
    using m that by (simp add: mono_run_def)
  have up: "snd st1 = snd st \<or>
            py_le (snd st1) (snd st1) \<and> (py_le (snd st) (snd st) \<longrightarrow> py_le (snd st1) (snd st))"
    using m Inr by (simp add: mono_run_def)
  have lo: "py_le (snd st1) x" if "x \<in> set ?L1" for x
    using m Inr that by (simp add: mono_run_def)
  have b2: "py_le y (snd st1)" if "py_le (snd st1) (snd st1)" "y \<in> set ?L2" for y
    using f1 that by (simp add: mono_run_def)
  have self_start: "py_le (snd st1) (snd st1)" if "py_le (snd st) (snd st)"
  proof (cases "snd st1 = snd st")
    case True
    then show ?thesis using that by simp
  next
    case False
    then show ?thesis using up by simp
  qed
  have self_saved: "py_le (snd st1) (snd st1)" if "x \<in> set ?L1" for x
    by (rule py_le_self [OF lo [OF that]])
  have le_start: "py_le (snd st1) (snd st)" if "py_le (snd st) (snd st)"
  proof (cases "snd st1 = snd st")
    case True
    then show ?thesis using that by simp
  next
    case False
    then show ?thesis using up that by simp
  qed
  have cross: "py_le y x" if x: "x \<in> set ?L1" and y: "y \<in> set ?L2" for x y
    by (rule py_le_trans [OF b2 [OF self_saved [OF x] y] lo [OF x]])
  have bound: "py_le y (snd st)" if st: "py_le (snd st) (snd st)" and y: "y \<in> set ?L2" for y
    by (rule py_le_trans [OF b2 [OF self_start [OF st] y] le_start [OF st]])
  have sorted: "sorted_wrt (\<lambda>x y. py_le y x) (?L1 @ ?L2)"
    using s1 s2 cross by (simp add: sorted_wrt_append)
  have len: "length (?L1 @ ?L2) =
      length (saved_checkpoints (fst m) @ saved_checkpoints (fst (f st1)))"
    using len1 len2 by simp
  have bnd: "\<forall>x \<in> set (?L1 @ ?L2). py_le x (snd st)" if "py_le (snd st) (snd st)"
    using b1 [OF that] bound [OF that] by (simp add: ball_Un)
  have fin: "(snd st2 = snd st \<or>
              py_le (snd st2) (snd st2) \<and> (py_le (snd st) (snd st) \<longrightarrow> py_le (snd st2) (snd st))) \<and>
             (\<forall>x \<in> set (?L1 @ ?L2). py_le (snd st2) x)"
    if st2: "snd (f st1) = Inr st2" for st2
  proof -
    have a: "snd st2 = snd st1 \<or>
             py_le (snd st2) (snd st2) \<and> (py_le (snd st1) (snd st1) \<longrightarrow> py_le (snd st2) (snd st1))"
      using f1 st2 by (simp add: mono_run_def)
    have b: "py_le (snd st2) x" if "x \<in> set ?L2" for x
      using f1 st2 that by (simp add: mono_run_def)
    have one: "snd st2 = snd st \<or>
        py_le (snd st2) (snd st2) \<and> (py_le (snd st) (snd st) \<longrightarrow> py_le (snd st2) (snd st))"
    proof (cases "snd st2 = snd st1")
      case True
      then show ?thesis using up by simp
    next
      case False
      then have c: "py_le (snd st2) (snd st2)"
        and d: "py_le (snd st1) (snd st1) \<Longrightarrow> py_le (snd st2) (snd st1)"
        using a by simp_all
      have "py_le (snd st2) (snd st)" if st: "py_le (snd st) (snd st)"
        by (rule py_le_trans [OF d [OF self_start [OF st]] le_start [OF st]])
      then show ?thesis using c by simp
    qed
    have two: "py_le (snd st2) x" if x: "x \<in> set ?L1" for x
    proof (cases "snd st2 = snd st1")
      case True
      then show ?thesis using lo [OF x] by simp
    next
      case False
      then have "py_le (snd st2) (snd st1)" using a self_saved [OF x] by simp
      then show ?thesis by (rule py_le_trans [OF _ lo [OF x]])
    qed
    show ?thesis using one two b by (simp add: ball_Un)
  qed
  show ?thesis
    unfolding mono_run_def L C S
    using sorted len bnd fin by blast
qed

lemma mono_run_train_batch_pair:
  assumes "int s mod validation_interval hp = 0 \<Longrightarrow> valid_loss c s \<noteq> NaN"
  shows "mono_run (s, b) (train_batch c hp name e i (s, b))"
proof (cases rule: train_batch_cases [where hp = hp and c = c and s = s and b = b and name = name and e = e and i = i])
  case zero
  then show ?thesis
    by (simp add: mono_run_def saved_best_losses_def saved_checkpoints_def)
next
  case skip
  then show ?thesis
    by (simp add: mono_run_def saved_best_losses_def saved_checkpoints_def)
next
  case (type_error err)
  then show ?thesis
    by (simp add: mono_run_def saved_best_losses_def saved_checkpoints_def)
next
  case (valid b')
  note le = py_min_le [OF valid(3) assms [OF valid(2)]]
  have sv: "saved_checkpoints (fst (train_batch c hp name e i (s, b))) =
      [(save_path hp name s, checkpoint_record c s e b')]"
    by (simp add: valid(4) saved_checkpoints_def)
  have sb: "saved_best_losses (fst (train_batch c hp name e i (s, b))) = [b']"
    by (simp add: saved_best_losses_def sv best_loss_of_record_def checkpoint_record_def)
  show ?thesis
    unfolding mono_run_def sb sv
    using le by (simp add: valid(4))
qed

lemma mono_run_train_batch:
  assumes "\<forall>s. int s mod validation_interval hp = 0 \<longrightarrow> valid_loss c s \<noteq> NaN"
  shows "mono_run st (train_batch c hp name e i st)"
proof (cases st)
  case (Pair s b)
  show ?thesis
    unfolding Pair using assms by (intro mono_run_train_batch_pair) simp
qed

lemma mono_run_run_epochs:
  assumes nn: "\<forall>s. int s mod validation_interval hp = 0 \<longrightarrow> valid_loss c s \<noteq> NaN"
  shows "mono_run st (run_epochs c hp name n es st)"
proof -
  have "mono_run st (run_epochs c hp name ((n - 1) + 1) es st)"
  proof (rule loops_lift(2) [where P = mono_run])
    show "mono_run st (bind_run m f)"
      if "mono_run st m" "\<And>st'. snd m = Inr st' \<Longrightarrow> mono_run st' (f st')" for st m f
      using that by (rule mono_run_bind)
    show "mono_run st ([], Inr st)" for st
      by (simp add: mono_run_def saved_best_losses_def saved_checkpoints_def)
    show "mono_run st (train_batch c hp name e i st)" for e i st
      by (rule mono_run_train_batch [OF nn])
    show "mono_run st (bind_run ([PrintEpoch e (n - 1)], Inr ()) (\<lambda>_. r))"
      if "mono_run st r" for st e r
      using that
      by (simp add: mono_run_def bind_run_Inr saved_best_losses_def saved_checkpoints_def)
  qed
  then show ?thesis by simp
qed






lemma setup_events_proj:
  "emitted_steps (setup_events hp name) = []"
  "saved_checkpoints (setup_events hp name) = []"
  "control_events (setup_events hp name) = []"
  by (simp_all add: setup_events_def emitted_steps_def saved_checkpoints_def control_events_def)

lemma resume_block_proj:
  "emitted_steps (fst (resume_block fs resume args)) = []"
  "saved_checkpoints (fst (resume_block fs resume args)) = []"
  "control_events (fst (resume_block fs resume args)) = []"
  by (simp_all add: resume_block_def fst_bind_run emitted_steps_def saved_checkpoints_def
      control_events_def split: option.splits sum.splits)

lemma train_main_fail:
  "snd (resume_block fs resume args) = Inl err \<Longrightarrow>
   train_main c fs hp n resume name args =
     (setup_events hp name @ fst (resume_block fs resume args), Inl err)"
  by (cases "resume_block fs resume args") (simp add: train_main_def bind_run_def)

lemma train_main_loop:
  "snd (resume_block fs resume args) = Inr (se, b) \<Longrightarrow>
   train_main c fs hp n resume name args =
     (setup_events hp name @ fst (resume_block fs resume args) @
        fst (training_loop c hp name n se b),
      snd (training_loop c hp name n se b))"
  by (cases "resume_block fs resume args")
     (simp add: train_main_def bind_run_def split: prod.splits)

lemma training_loop_VInt:
  "training_loop c hp name n (VInt e) b = run_epochs c hp name n [e..n - 1] (0, b)"
  by (simp add: training_loop_def)

lemma training_loop_other:
  "(\<And>e. se \<noteq> VInt e) \<Longrightarrow> training_loop c hp name n se b = ([], Inl TypeError)"
  by (cases se) (auto simp: training_loop_def)

lemma resume_block_fresh: "resume_block fs [] args = ([], Inr (VInt 0, VInt 999))"
  by (simp add: resume_block_def)

lemma resume_block_missing:
  "resume \<noteq> [] \<Longrightarrow> fs resume = None \<Longrightarrow>
   resume_block fs resume (Some a) = ([PrintNoCheckpoint a], Inr (VInt 0, VInt 999))"
  by (simp add: resume_block_def)

lemma resume_block_loaded:
  "resume \<noteq> [] \<Longrightarrow> fs resume = Some ck \<Longrightarrow> map_of ck ''epoch'' = Some ep \<Longrightarrow>
   map_of ck ''best_loss'' = Some b \<Longrightarrow> map_of ck ''state_dict'' = Some sd \<Longrightarrow>
   map_of ck ''optimizer'' = Some opt \<Longrightarrow>
   resume_block fs resume args =
     ([PrintLoading resume, LoadModelState sd, LoadOptimizerState opt, PrintLoaded resume ep],
      Inr (ep, b))"
  by (simp add: resume_block_def dict_item_def bind_run_def)

lemma resume_block_no_epoch:
  "resume \<noteq> [] \<Longrightarrow> fs resume = Some ck \<Longrightarrow> map_of ck ''epoch'' = None \<Longrightarrow>
   resume_block fs resume args = ([PrintLoading resume], Inl (KeyError ''epoch''))"
  by (simp add: resume_block_def dict_item_def bind_run_def)

text \<open>The first events of the loop.\<close>

lemma train_batch_first_event:
  "\<exists>rest. fst (train_batch c hp name e i (s, b)) = TrainBatch e i s # rest"
  by (cases rule: train_batch_cases [where hp = hp and c = c and s = s and b = b and name = name and e = e and i = i])
     simp_all

lemma training_loop_first_batch:
  assumes "e0 < n" "0 < n_batches c"
  shows "\<exists>rest. fst (training_loop c hp name n (VInt e0) b) =
           PrintEpoch e0 (n - 1) # fst (train_batch c hp name e0 0 (0, b)) @ rest"
proof -
  have es: "[e0..n - 1] = e0 # [e0 + 1..n - 1]"
    using assms(1) by (simp add: upto_rec1)
  have idxs: "[0..<n_batches c] = 0 # [Suc 0..<n_batches c]"
    using assms(2) by (simp add: upt_conv_Cons)
  obtain r1 where r1: "fst (train_epoch c hp name e0 [0..<n_batches c] (0, b)) =
      fst (train_batch c hp name e0 0 (0, b)) @ r1"
    unfolding idxs train_epoch.simps using bind_run_prefix by blast
  obtain r2 where r2: "fst (run_epochs c hp name n [e0..n - 1] (0, b)) =
      fst (bind_run ([PrintEpoch e0 (n - 1)], Inr ())
             (\<lambda>_. train_epoch c hp name e0 [0..<n_batches c] (0, b))) @ r2"
    unfolding es run_epochs.simps using bind_run_prefix by blast
  show ?thesis
    by (simp add: training_loop_VInt r2 bind_run_Inr r1)
qed

lemma train_batch_step0:
  assumes "validation_interval hp \<noteq> 0" "num_of b = Some r"
  shows "fst (train_batch c hp name e i (0, b)) =
     [TrainBatch e i 0, Validation 0, SchedulerStep (valid_loss c 0),
      TorchSave (save_path hp name 0)
        (checkpoint_record c 0 e
           (if float_lt r (valid_loss c 0) then b else VFloat (valid_loss c 0))),
      PrintSaved (save_path hp name 0)]"
  using assms by (simp add: train_batch_def bind_run_def py_min_def)

text \<open>The three ways \<^verbatim>\<open>main\<close> of train.py can go.\<close>

lemma main_cases:
  obtains (fail) err where "snd (resume_block fs resume args) = Inl err"
      "train_main c fs hp n resume name args =
         (setup_events hp name @ fst (resume_block fs resume args), Inl err)"
  | (type_error) se b where "snd (resume_block fs resume args) = Inr (se, b)"
      "train_main c fs hp n resume name args =
         (setup_events hp name @ fst (resume_block fs resume args), Inl TypeError)"
  | (loop) e b where "snd (resume_block fs resume args) = Inr (VInt e, b)"
      "train_main c fs hp n resume name args =
         (setup_events hp name @ fst (resume_block fs resume args) @
            fst (run_epochs c hp name n [e..n - 1] (0, b)),
          snd (run_epochs c hp name n [e..n - 1] (0, b)))"
proof (cases "snd (resume_block fs resume args)")
  case (Inl err)
  show ?thesis by (rule fail [OF Inl train_main_fail [OF Inl]])
next
  case (Inr st)
  obtain se b where st: "st = (se, b)" by (cases st)
  note r = Inr [unfolded st]
  show ?thesis
  proof (cases "\<exists>e. se = VInt e")
    case True
    then obtain e where e: "se = VInt e" by blast
    show ?thesis
      by (rule loop [OF r [unfolded e]])
         (simp add: train_main_loop [OF r [unfolded e]] training_loop_VInt)
  next
    case False
    then have "training_loop c hp name n se b = ([], Inl TypeError)"
      by (intro training_loop_other) blast
    then show ?thesis
      by (intro type_error [OF r]) (simp add: train_main_loop [OF r])
  qed
qed

lemma resume_block_best:
  "saved_best_losses (fst (resume_block fs resume args)) = []"
  "saved_best_losses (setup_events hp name) = []"
  by (simp_all add: saved_best_losses_def resume_block_proj setup_events_proj)

lemma train_main_first_batch:
  assumes rb: "snd (resume_block fs resume args) = Inr (VInt e0, b)"
    and "e0 < n" "0 < n_batches c"
  shows "\<exists>rest. fst (train_main c fs hp n resume name args) =
           setup_events hp name @ fst (resume_block fs resume args) @
           PrintEpoch e0 (n - 1) # fst (train_batch c hp name e0 0 (0, b)) @ rest"
proof -
  obtain rest where "fst (training_loop c hp name n (VInt e0) b) =
      PrintEpoch e0 (n - 1) # fst (train_batch c hp name e0 0 (0, b)) @ rest"
    using training_loop_first_batch [OF assms(2,3)] by blast
  then show ?thesis
    by (simp add: train_main_loop [OF rb])
qed

section \<open>Claims\<close>

text \<open>
  C3 (as amended). \<^verbatim>\<open>best_loss\<close> changes only in a validation round, where it becomes
  \<^verbatim>\<open>min(valid_loss, best_loss)\<close>. When no validation loss of the run is NaN, the values
  stored in the records that the run writes never increase, every record stores one, and
  none exceeds the value the run started from (999, or a value restored from the
  checkpoint that is not NaN).
\<close>

theorem best_loss_non_increasing:
  assumes "\<forall>s. int s mod validation_interval hp = 0 \<longrightarrow> valid_loss c s \<noteq> NaN"
  shows "sorted_wrt (\<lambda>x y. py_le y x)
     (saved_best_losses (fst (train_main c fs hp n resume name args))) \<and>
   length (saved_best_losses (fst (train_main c fs hp n resume name args))) =
     length (saved_checkpoints (fst (train_main c fs hp n resume name args))) \<and>
   (\<forall>se b0. snd (resume_block fs resume args) = Inr (se, b0) \<longrightarrow> py_le b0 b0 \<longrightarrow>
      (\<forall>x \<in> set (saved_best_losses (fst (train_main c fs hp n resume name args))).
         py_le x b0)) \<and>
   (\<forall>e i s b s' b'. snd (train_batch c hp name e i (s, b)) = Inr (s', b') \<longrightarrow>
      (if int s mod validation_interval hp = 0 then py_min (valid_loss c s) b = Inr b'
       else b' = b))"
proof -
  let ?tr = "fst (train_main c fs hp n resume name args)"
  have batch: "if int s mod validation_interval hp = 0 then py_min (valid_loss c s) b = Inr b'
       else b' = b"
    if "snd (train_batch c hp name e i (s, b)) = Inr (s', b')" for e i s b s' b'
    using that
    by (cases rule: train_batch_cases [where hp = hp and c = c and s = s and b = b
          and name = name and e = e and i = i]) simp_all
  have run: "sorted_wrt (\<lambda>x y. py_le y x) (saved_best_losses ?tr) \<and>
     length (saved_best_losses ?tr) = length (saved_checkpoints ?tr) \<and>
     (\<forall>se b0. snd (resume_block fs resume args) = Inr (se, b0) \<longrightarrow> py_le b0 b0 \<longrightarrow>
        (\<forall>x \<in> set (saved_best_losses ?tr). py_le x b0))"
  proof (cases rule: main_cases [where fs = fs and resume = resume and args = args and c = c
          and hp = hp and n = n and name = name])
    case (fail err)
    then show ?thesis
      by (simp add: saved_best_losses_append saved_checkpoints_append resume_block_best
          resume_block_proj setup_events_proj)
  next
    case (type_error se b)
    then show ?thesis
      by (simp add: saved_best_losses_append saved_checkpoints_append resume_block_best
          resume_block_proj setup_events_proj)
  next
    case (loop e b)
    have "mono_run (0, b) (run_epochs c hp name n [e..n - 1] (0, b))"
      by (rule mono_run_run_epochs [OF assms])
    then show ?thesis
      using loop
      by (simp add: mono_run_def saved_best_losses_append saved_checkpoints_append
          resume_block_best resume_block_proj setup_events_proj)
  qed
  show ?thesis using run batch by blast
qed

text \<open>
  C3, the amended statement at a concrete input: a fresh run of two epochs of six batches
  with interval 5 and falling validation losses, none of them NaN.
\<close>

theorem best_loss_non_increasing_witness:
  "valid_loss c1 0 \<noteq> NaN \<and> valid_loss c1 5 \<noteq> NaN \<and> valid_loss c1 10 \<noteq> NaN \<and>
   saved_best_losses (fst (train_main c1 fs40 hp0 2 [] ''default'' None)) =
     [VFloat (Finite 1), VFloat (Finite (1 / 6)), VFloat (Finite (1 / 11))] \<and>
   sorted_wrt (\<lambda>x y. py_le y x)
     [VFloat (Finite 1), VFloat (Finite (1 / 6)), VFloat (Finite (1 / 11))] \<and>
   length (saved_checkpoints (fst (train_main c1 fs40 hp0 2 [] ''default'' None))) = 3 \<and>
   snd (resume_block fs40 [] None) = Inr (VInt 0, VInt 999) \<and>
   py_le (VInt 999) (VInt 999) \<and>
   py_le (VFloat (Finite 1)) (VInt 999) \<and>
   snd (train_batch c1 hp0 ''default'' 0 5 (5, VFloat (Finite 1))) =
     Inr (6, VFloat (Finite (1 / 6))) \<and>
   py_min (valid_loss c1 5) (VFloat (Finite 1)) = Inr (VFloat (Finite (1 / 6)))"
proof -
  have nn: "\<forall>s. int s mod validation_interval hp0 = 0 \<longrightarrow> valid_loss c1 s \<noteq> NaN"
    by (simp add: c1_def)
  have a: "saved_best_losses (fst (train_main c1 fs40 hp0 2 [] ''default'' None)) =
     [VFloat (Finite 1), VFloat (Finite (1 / 6)), VFloat (Finite (1 / 11))]"
    by code_simp
  have b: "snd (resume_block fs40 [] None) = Inr (VInt 0, VInt 999)"
    by (simp add: resume_block_def)
  have d: "snd (train_batch c1 hp0 ''default'' 0 5 (5, VFloat (Finite 1))) =
      Inr (6, VFloat (Finite (1 / 6)))"
    by code_simp
  have e: "int 5 mod validation_interval hp0 = 0"
    by (simp add: hp0_def)
  have self: "py_le (VInt 999) (VInt 999)"
    by (simp add: py_le_def)
  note inst = best_loss_non_increasing [OF nn, of fs40 2 "[]" "''default''" None]
  note bound = conjunct1 [OF conjunct2 [OF conjunct2 [OF inst]], rule_format]
  note pass = conjunct2 [OF conjunct2 [OF conjunct2 [OF inst]], rule_format]
  have srt: "sorted_wrt (\<lambda>x y. py_le y x)
      [VFloat (Finite 1), VFloat (Finite (1 / 6)), VFloat (Finite (1 / 11))]"
    using conjunct1 [OF inst] unfolding a .
  have len: "length (saved_checkpoints (fst (train_main c1 fs40 hp0 2 [] ''default'' None))) = 3"
    using conjunct1 [OF conjunct2 [OF inst]] unfolding a by simp
  have bnd: "py_le (VFloat (Finite 1)) (VInt 999)"
    by (rule bound [OF b self]) (simp add: a)
  have mn: "py_min (valid_loss c1 5) (VFloat (Finite 1)) = Inr (VFloat (Finite (1 / 6)))"
    using pass [OF d] e by simp
  have v: "valid_loss c1 0 \<noteq> NaN" "valid_loss c1 5 \<noteq> NaN" "valid_loss c1 10 \<noteq> NaN"
    by (simp_all add: c1_def)
  show ?thesis using v a srt len b self bnd d mn by blast
qed

text \<open>
  C3 as stated fails: with the validation losses 0.5, NaN and 0.75 the records store
  0.5, NaN and 0.75. Python's \<^verbatim>\<open>min(nan, 0.5)\<close> is NaN and \<^verbatim>\<open>min(0.75, nan)\<close> is 0.75, so
  the stored value is not ordered against its predecessor and ends above the first one.
\<close>

theorem best_loss_rises_after_nan:
  "saved_best_losses (fst (train_cli c_nan fs40 hp0 2 [] ''default'')) =
     [VFloat (Finite (1 / 2)), VFloat NaN, VFloat (Finite (3 / 4))] \<and>
   \<not> py_le (VFloat NaN) (VFloat (Finite (1 / 2))) \<and>
   \<not> py_le (VFloat (Finite (3 / 4))) (VFloat NaN) \<and>
   \<not> py_le (VFloat (Finite (3 / 4))) (VFloat (Finite (1 / 2))) \<and>
   \<not> sorted_wrt (\<lambda>x y. py_le y x)
       (saved_best_losses (fst (train_cli c_nan fs40 hp0 2 [] ''default'')))"
proof -
  have a: "saved_best_losses (fst (train_cli c_nan fs40 hp0 2 [] ''default'')) =
     [VFloat (Finite (1 / 2)), VFloat NaN, VFloat (Finite (3 / 4))]"
    by code_simp
  show ?thesis unfolding a by (simp add: py_le_def)
qed



text \<open>
  C9. Whatever model the configuration selects, every record the training loop writes has
  the string \<^verbatim>\<open>ResUnet\<close> in its \<^verbatim>\<open>arch\<close> entry.
\<close>

theorem saved_arch_is_ResUnet:
  "BuildModel (if RESNET_PLUS_PLUS hp then ResUnetPlusPlus else ResUnet)
     \<in> set (fst (train_main c fs hp n resume name args)) \<and>
   (\<forall>p r. TorchSave p r \<in> set (fst (train_main c fs hp n resume name args)) \<longrightarrow>
      map_of r ''arch'' = Some (VStr ''ResUnet''))"
proof -
  have su: "arch_ok (setup_events hp name)"
    by (simp add: arch_ok_def setup_events_def)
  have rb: "arch_ok (fst (resume_block fs resume args))"
    using resume_block_proj(2) [of fs resume args]
    by (auto simp: arch_ok_def saved_checkpoints_def)
  have "arch_ok (fst (train_main c fs hp n resume name args))"
    by (cases rule: main_cases [where fs = fs and resume = resume and args = args and c = c
          and hp = hp and n = n and name = name])
       (simp_all add: arch_ok_append su rb arch_ok_run_epochs)
  moreover have "BuildModel (if RESNET_PLUS_PLUS hp then ResUnetPlusPlus else ResUnet)
     \<in> set (fst (train_main c fs hp n resume name args))"
    by (cases rule: main_cases [where fs = fs and resume = resume and args = args and c = c
          and hp = hp and n = n and name = name])
       (simp_all add: setup_events_def)
  ultimately show ?thesis by (simp add: arch_ok_def)
qed

text \<open>
  C9 at a concrete input: a run with \<^verbatim>\<open>RESNET_PLUS_PLUS\<close> set.
\<close>

theorem saved_arch_is_ResUnet_witness:
  "RESNET_PLUS_PLUS hp0 \<and>
   BuildModel ResUnetPlusPlus \<in> set (fst (train_main c0 fs40 hp0 1 [] ''default'' None)) \<and>
   TorchSave ''checkpoints/default/default_checkpoint_0000.pt'' (checkpoint_record c0 0 0 (VInt 999))
     \<in> set (fst (train_main c0 fs40 hp0 1 [] ''default'' None)) \<and>
   map_of (checkpoint_record c0 0 0 (VInt 999)) ''arch'' = Some (VStr ''ResUnet'')"
proof -
  have a: "RESNET_PLUS_PLUS hp0" by (simp add: hp0_def)
  have b: "TorchSave ''checkpoints/default/default_checkpoint_0000.pt''
             (checkpoint_record c0 0 0 (VInt 999))
           \<in> set (fst (train_main c0 fs40 hp0 1 [] ''default'' None))"
    by code_simp
  show ?thesis
    using a b saved_arch_is_ResUnet [of hp0 c0 fs40 1 "[]" "''default''" None] by simp
qed

text \<open>
  C1 (as amended). Resuming from a checkpoint whose stored step is 40 restores the start
  epoch and \<^verbatim>\<open>best_loss\<close> exactly as persisted, but the stored step is never read:
  line 134 sets the counter to 0, so the first batch processed after the resume has
  step 0.
\<close>

theorem resume_restarts_step_counter:
  assumes "resume \<noteq> []" "fs resume = Some ck"
    and "map_of ck ''step'' = Some (VInt 40)"
    and "map_of ck ''epoch'' = Some (VInt e0)"
    and "map_of ck ''best_loss'' = Some b"
    and "map_of ck ''state_dict'' = Some sd"
    and "map_of ck ''optimizer'' = Some opt"
    and "e0 < n" "0 < n_batches c"
  shows "snd (resume_block fs resume args) = Inr (VInt e0, b) \<and>
         (\<exists>rest. emitted_steps (fst (train_main c fs hp n resume name args)) = 0 # rest) \<and>
         (\<exists>rest. fst (training_loop c hp name n (VInt e0) b) =
            PrintEpoch e0 (n - 1) # TrainBatch e0 0 0 # rest)"
proof -
  note rb = resume_block_loaded [where fs = fs and resume = resume and args = args, OF assms(1,2,4,5,6,7)]
  have rb': "snd (resume_block fs resume args) = Inr (VInt e0, b)"
    by (simp add: rb)
  obtain r1 where r1: "fst (train_batch c hp name e0 0 (0, b)) = TrainBatch e0 0 0 # r1"
    using train_batch_first_event by blast
  obtain r2 where r2: "fst (training_loop c hp name n (VInt e0) b) =
      PrintEpoch e0 (n - 1) # fst (train_batch c hp name e0 0 (0, b)) @ r2"
    using training_loop_first_batch [OF assms(8,9)] by blast
  have "emitted_steps (fst (train_main c fs hp n resume name args)) =
      0 # emitted_steps (r1 @ r2)"
    unfolding train_main_loop [OF rb'] r2 r1
    by (simp add: emitted_steps_append setup_events_proj resume_block_proj)
       (simp add: emitted_steps_def)
  then show ?thesis using rb' r2 r1 by simp
qed

text \<open>
  C1, the amended statement at a concrete input: the record written at step 40 of
  epoch 3 with \<^verbatim>\<open>best_loss\<close> 0.25.
\<close>

theorem resume_restarts_step_counter_witness:
  "''ck.pt'' \<noteq> [] \<and> fs40 ''ck.pt'' = Some ck40 \<and> map_of ck40 ''step'' = Some (VInt 40) \<and>
   snd (resume_block fs40 ''ck.pt'' (Some ''ck.pt'')) = Inr (VInt 3, VFloat (Finite (1 / 4))) \<and>
   (\<exists>rest. emitted_steps (fst (train_main c0 fs40 hp0 5 ''ck.pt'' ''default'' (Some ''ck.pt'')))
      = 0 # rest)"
proof -
  have a: "''ck.pt'' \<noteq> []" "fs40 ''ck.pt'' = Some ck40"
    "map_of ck40 ''step'' = Some (VInt 40)" "map_of ck40 ''epoch'' = Some (VInt 3)"
    "map_of ck40 ''best_loss'' = Some (VFloat (Finite (1 / 4)))"
    "map_of ck40 ''state_dict'' = Some (VBlob 40)"
    "map_of ck40 ''optimizer'' = Some (VBlob 40)"
    by (simp_all add: fs40_def ck40_def)
  have b: "(3::int) < 5" "0 < n_batches c0" by (simp_all add: c0_def)
  show ?thesis
    using resume_restarts_step_counter [where fs = fs40 and resume = "''ck.pt''" and args = "Some ''ck.pt''"
        and hp = hp0 and name = "''default''", OF a b] a by simp
qed

text \<open>
  C1 as stated fails: resumed from that record, the run emits the steps 0, 1, 2, 3 and
  never 41.
\<close>

theorem resume_step_not_41:
  "map_of ck40 ''step'' = Some (VInt 40) \<and> fs40 ''ck.pt'' = Some ck40 \<and>
   emitted_steps (fst (train_cli c0 fs40 hp0 5 ''ck.pt'' ''default'')) = [0, 1, 2, 3]"
proof -
  have "emitted_steps (fst (train_cli c0 fs40 hp0 5 ''ck.pt'' ''default'')) = [0, 1, 2, 3]"
    by code_simp
  then show ?thesis by (simp add: ck40_def fs40_def)
qed

text \<open>
  C2 (as amended). Started as a script with a non-empty resume path that is not a file,
  the run prints that no checkpoint was found and then trains from the fresh initial
  state (start epoch 0, \<^verbatim>\<open>best_loss\<close> 999), exactly as a run without a resume path
  does.
\<close>

theorem missing_checkpoint_trains_fresh:
  assumes "resume \<noteq> []" "fs resume = None"
  shows "train_cli c fs hp n resume name =
           (setup_events hp name @ [PrintNoCheckpoint resume] @
              fst (training_loop c hp name n (VInt 0) (VInt 999)),
            snd (training_loop c hp name n (VInt 0) (VInt 999))) \<and>
         train_cli c fs hp n [] name =
           (setup_events hp name @ fst (training_loop c hp name n (VInt 0) (VInt 999)),
            snd (training_loop c hp name n (VInt 0) (VInt 999)))"
proof -
  have a: "snd (resume_block fs resume (Some resume)) = Inr (VInt 0, VInt 999)"
    by (simp add: resume_block_missing [where fs = fs and resume = resume, OF assms])
  have b: "snd (resume_block fs [] (Some [])) = Inr (VInt 0, VInt 999)"
    by (simp add: resume_block_fresh)
  show ?thesis
    unfolding train_cli_def train_main_loop [OF a] train_main_loop [OF b]
    by (simp add: resume_block_missing [where fs = fs and resume = resume, OF assms] resume_block_fresh)
qed

text \<open>
  C2, the amended statement at a concrete input: the path \<^verbatim>\<open>missing.pt\<close> in a file
  system that holds only \<^verbatim>\<open>ck.pt\<close>.
\<close>

theorem missing_checkpoint_trains_fresh_witness:
  "''missing.pt'' \<noteq> [] \<and> fs40 ''missing.pt'' = None \<and>
   snd (train_cli c0 fs40 hp0 1 ''missing.pt'' ''default'') =
     snd (train_cli c0 fs40 hp0 1 [] ''default'') \<and>
   fst (train_cli c0 fs40 hp0 1 ''missing.pt'' ''default'') =
     setup_events hp0 ''default'' @ [PrintNoCheckpoint ''missing.pt''] @
       fst (training_loop c0 hp0 ''default'' 1 (VInt 0) (VInt 999))"
proof -
  have a: "''missing.pt'' \<noteq> []" "fs40 ''missing.pt'' = None"
    by (simp_all add: fs40_def)
  show ?thesis
    using missing_checkpoint_trains_fresh [where fs = fs40 and resume = "''missing.pt''" and c = c0 and hp = hp0
        and n = 1 and name = "''default''", OF a] a by simp
qed

text \<open>
  C2 as stated fails: with the missing path the run does not abort, it trains one epoch
  from scratch and returns.
\<close>

theorem missing_checkpoint_not_fatal:
  "''missing.pt'' \<noteq> [] \<and> fs40 ''missing.pt'' = None \<and>
   train_cli c0 fs40 hp0 1 ''missing.pt'' ''default'' =
     ([Makedirs ''checkpoints/default'', Makedirs ''logs/default'',
       BuildModel ResUnetPlusPlus, PrintLoadingResunetPP,
       PrintNoCheckpoint ''missing.pt'', PrintEpoch 0 0, TrainBatch 0 0 0,
       Validation 0, SchedulerStep (Finite 1000),
       TorchSave ''checkpoints/default/default_checkpoint_0000.pt''
         [(''step'', VInt 0), (''epoch'', VInt 0), (''arch'', VStr ''ResUnet''),
          (''state_dict'', VBlob 0), (''best_loss'', VInt 999), (''optimizer'', VBlob 0)],
       PrintSaved ''checkpoints/default/default_checkpoint_0000.pt'',
       TrainBatch 0 1 1],
      Inr (2, VInt 999))"
proof -
  have "train_cli c0 fs40 hp0 1 ''missing.pt'' ''default'' =
     ([Makedirs ''checkpoints/default'', Makedirs ''logs/default'',
       BuildModel ResUnetPlusPlus, PrintLoadingResunetPP,
       PrintNoCheckpoint ''missing.pt'', PrintEpoch 0 0, TrainBatch 0 0 0,
       Validation 0, SchedulerStep (Finite 1000),
       TorchSave ''checkpoints/default/default_checkpoint_0000.pt''
         [(''step'', VInt 0), (''epoch'', VInt 0), (''arch'', VStr ''ResUnet''),
          (''state_dict'', VBlob 0), (''best_loss'', VInt 999), (''optimizer'', VBlob 0)],
       PrintSaved ''checkpoints/default/default_checkpoint_0000.pt'',
       TrainBatch 0 1 1],
      Inr (2, VInt 999))"
    by code_simp
  then show ?thesis by (simp add: fs40_def)
qed

text \<open>
  C5, the code at a failing input. Six samples in batches of 4 and 2: the index
  \<^verbatim>\<open>batch_idx * inputs.size(0) + i\<close> uses the size of the current batch, so the second
  batch writes \<^verbatim>\<open>sample_2.png\<close> and \<^verbatim>\<open>sample_3.png\<close> again and the file names are not
  distinct.
\<close>

theorem evaluate_filenames_collide:
  "map bsize batches_4_2 = [4, 2] \<and>
   written_files (fst (evaluate ''results'' batches_4_2)) =
     [''results/sample_0.png'', ''results/sample_1.png'', ''results/sample_2.png'',
      ''results/sample_3.png'', ''results/sample_2.png'', ''results/sample_3.png''] \<and>
   out_filename ''results'' 0 4 2 = out_filename ''results'' 1 2 0 \<and>
   \<not> distinct (written_files (fst (evaluate ''results'' batches_4_2)))"
proof -
  have a: "written_files (fst (evaluate ''results'' batches_4_2)) =
     [''results/sample_0.png'', ''results/sample_1.png'', ''results/sample_2.png'',
      ''results/sample_3.png'', ''results/sample_2.png'', ''results/sample_3.png'']"
    by code_simp
  have b: "out_filename ''results'' 0 4 2 = out_filename ''results'' 1 2 0"
    by code_simp
  have c: "map bsize batches_4_2 = [4, 2]"
    by (simp add: batches_4_2_def)
  show ?thesis unfolding a using b c by simp
qed

text \<open>
  C6 (as amended). On a checkpoint record without an \<^verbatim>\<open>epoch\<close> entry the evaluation
  loader succeeds and reports the epoch as \<^verbatim>\<open>N/A\<close>, while the training resume reads
  \<^verbatim>\<open>checkpoint["epoch"]\<close> for its start epoch and stops with a KeyError.
\<close>

theorem absent_epoch_readers:
  assumes "fs p = Some ck" "map_of ck ''epoch'' = None"
  shows "(\<forall>sd. map_of ck ''state_dict'' = Some sd \<longrightarrow>
            load_checkpoint_eval fs p =
              ([PrintLoading p, LoadModelState sd, PrintLoaded p (VStr ''N/A'')], Inr ())) \<and>
         (p \<noteq> [] \<longrightarrow>
            train_main c fs hp n p name args =
              (setup_events hp name @ [PrintLoading p], Inl (KeyError ''epoch'')))"
proof -
  have "train_main c fs hp n p name args =
      (setup_events hp name @ [PrintLoading p], Inl (KeyError ''epoch''))" if "p \<noteq> []"
    using train_main_fail [of fs p args "KeyError ''epoch''" c hp n name]
    by (simp add: resume_block_no_epoch [where fs = fs and resume = p, OF that assms])
  moreover have "load_checkpoint_eval fs p =
      ([PrintLoading p, LoadModelState sd, PrintLoaded p (VStr ''N/A'')], Inr ())"
    if "map_of ck ''state_dict'' = Some sd" for sd
    using assms that
    by (simp add: load_checkpoint_eval_def dict_item_def dict_get_def bind_run_def)
  ultimately show ?thesis by blast
qed

text \<open>
  C6, the amended statement at a concrete input: the record of step 40 without its
  \<^verbatim>\<open>epoch\<close> entry.
\<close>

theorem absent_epoch_readers_witness:
  "fs_noepoch ''ck.pt'' = Some ck_noepoch \<and> map_of ck_noepoch ''epoch'' = None \<and>
   map_of ck_noepoch ''state_dict'' = Some (VBlob 40) \<and> ''ck.pt'' \<noteq> [] \<and>
   load_checkpoint_eval fs_noepoch ''ck.pt'' =
     ([PrintLoading ''ck.pt'', LoadModelState (VBlob 40), PrintLoaded ''ck.pt'' (VStr ''N/A'')],
      Inr ()) \<and>
   snd (train_main c0 fs_noepoch hp0 5 ''ck.pt'' ''default'' (Some ''ck.pt'')) =
     Inl (KeyError ''epoch'')"
proof -
  have a: "fs_noepoch ''ck.pt'' = Some ck_noepoch" "map_of ck_noepoch ''epoch'' = None"
    by (simp_all add: fs_noepoch_def ck_noepoch_def)
  have b: "map_of ck_noepoch ''state_dict'' = Some (VBlob 40)"
    by (simp add: ck_noepoch_def)
  show ?thesis
    using absent_epoch_readers [where fs = fs_noepoch and p = "''ck.pt''" and c = c0 and hp = hp0 and n = 5
        and name = "''default''" and args = "Some ''ck.pt''", OF a] a b by simp
qed

text \<open>
  C6 as stated fails: the training resume does not succeed on that record.
\<close>

theorem train_resume_needs_epoch:
  "map_of ck_noepoch ''epoch'' = None \<and> fs_noepoch ''ck.pt'' = Some ck_noepoch \<and>
   train_cli c0 fs_noepoch hp0 5 ''ck.pt'' ''default'' =
     ([Makedirs ''checkpoints/default'', Makedirs ''logs/default'',
       BuildModel ResUnetPlusPlus, PrintLoadingResunetPP, PrintLoading ''ck.pt''],
      Inl (KeyError ''epoch''))"
proof -
  have "train_cli c0 fs_noepoch hp0 5 ''ck.pt'' ''default'' =
     ([Makedirs ''checkpoints/default'', Makedirs ''logs/default'',
       BuildModel ResUnetPlusPlus, PrintLoadingResunetPP, PrintLoading ''ck.pt''],
      Inl (KeyError ''epoch''))"
    by code_simp
  then show ?thesis by (simp add: fs_noepoch_def ck_noepoch_def)
qed

text \<open>
  C7. An evaluation over no samples leaves \<^verbatim>\<open>num_samples\<close> and \<^verbatim>\<open>pixel_total\<close> at 0,
  and the first division, of the Python float \<^verbatim>\<open>dice_sum\<close> by zero, raises
  ZeroDivisionError: no average is returned, and the evaluation script started on a
  loadable checkpoint ends with that error.
\<close>

theorem evaluate_empty_raises:
  "num_samples (snd (eval_batches result_folder 0 [] eval_init)) = 0 \<and>
   pixel_total (snd (eval_batches result_folder 0 [] eval_init)) = 0 \<and>
   evaluate result_folder [] = ([Makedirs result_folder], Inl ZeroDivisionError) \<and>
   (\<forall>ck sd. fs model_path = Some ck \<longrightarrow> map_of ck ''state_dict'' = Some sd \<longrightarrow>
      snd (eval_main fs hp model_path result_folder []) = Inl ZeroDivisionError)"
proof -
  have ev: "evaluate result_folder [] = ([Makedirs result_folder], Inl ZeroDivisionError)"
    by (simp add: evaluate_def eval_init_def bind_run_def)
  have "snd (eval_main fs hp model_path result_folder []) = Inl ZeroDivisionError"
    if "fs model_path = Some ck" "map_of ck ''state_dict'' = Some sd" for ck sd
    using that
    by (simp add: eval_main_def load_checkpoint_eval_def dict_item_def bind_run_def ev)
  then show ?thesis
    using ev by (simp add: eval_init_def)
qed

text \<open>
  C7 at a concrete input: the evaluation script started on an existing checkpoint and an
  empty test set.
\<close>

theorem evaluate_empty_raises_witness:
  "fs40 ''ck.pt'' = Some ck40 \<and> map_of ck40 ''state_dict'' = Some (VBlob 40) \<and>
   evaluate ''results'' [] = ([Makedirs ''results''], Inl ZeroDivisionError) \<and>
   snd (eval_main fs40 hp0 ''ck.pt'' ''results'' []) = Inl ZeroDivisionError"
proof -
  have a: "fs40 ''ck.pt'' = Some ck40" "map_of ck40 ''state_dict'' = Some (VBlob 40)"
    by (simp_all add: fs40_def ck40_def)
  show ?thesis
    using evaluate_empty_raises [where fs = fs40 and model_path = "''ck.pt''" and hp = hp0
        and result_folder = "''results''"] a
    by simp
qed

text \<open>
  C8 (as amended). A run that is not resumed starts with \<^verbatim>\<open>best_loss = 999\<close>; the
  first validation round stores \<^verbatim>\<open>min(loss, 999)\<close>, so the first validation loss becomes
  the new \<^verbatim>\<open>best_loss\<close> unless 999 is strictly smaller than it (a NaN loss is stored,
  since \<^verbatim>\<open>999 < nan\<close> is false).
\<close>

theorem initial_best_loss_999:
  assumes "validation_interval hp \<noteq> 0" "0 < n" "0 < n_batches c"
  shows "snd (resume_block fs [] args) = Inr (VInt 0, VInt 999) \<and>
         (\<exists>rest. saved_best_losses (fst (train_main c fs hp n [] name args)) =
            (if float_lt (Finite 999) (valid_loss c 0) then VInt 999
             else VFloat (valid_loss c 0)) # rest)"
proof -
  have rb: "snd (resume_block fs [] args) = Inr (VInt 0, VInt 999)"
    by (simp add: resume_block_fresh)
  have num: "num_of (VInt 999) = Some (Finite 999)" by simp
  obtain rest where tr: "fst (train_main c fs hp n [] name args) =
       setup_events hp name @ fst (resume_block fs [] args) @
       PrintEpoch 0 (n - 1) # fst (train_batch c hp name 0 0 (0, VInt 999)) @ rest"
    using train_main_first_batch [OF rb assms(2,3)] by blast
  have "saved_best_losses (fst (train_main c fs hp n [] name args)) =
      (if float_lt (Finite 999) (valid_loss c 0) then VInt 999 else VFloat (valid_loss c 0)) #
      saved_best_losses rest"
    unfolding tr train_batch_step0 [OF assms(1) num]
    by (simp add: saved_best_losses_append resume_block_best)
       (simp add: saved_best_losses_def saved_checkpoints_def best_loss_of_record_def
          checkpoint_record_def)
  then show ?thesis using rb by blast
qed

text \<open>
  C8, the amended statement at a concrete input: a first validation loss of 1.
\<close>

theorem initial_best_loss_999_witness:
  "validation_interval hp0 \<noteq> 0 \<and> (0::int) < 2 \<and> 0 < n_batches c1 \<and>
   snd (resume_block fs40 [] None) = Inr (VInt 0, VInt 999) \<and>
   (\<exists>rest. saved_best_losses (fst (train_main c1 fs40 hp0 2 [] ''default'' None)) =
      VFloat (Finite 1) # rest)"
proof -
  have a: "validation_interval hp0 \<noteq> 0" by (simp add: hp0_def)
  have b: "(0::int) < 2" by simp
  have d: "0 < n_batches c1" by (simp add: c1_def)
  have v: "valid_loss c1 0 = Finite 1" by (simp add: c1_def)
  show ?thesis
    using initial_best_loss_999 [OF a b d, of fs40 None "''default''"] a d by (simp add: v)
qed

text \<open>
  C8 as stated fails: a first validation loss of 1000 does not become \<^verbatim>\<open>best_loss\<close>,
  the record of step 0 stores 999.
\<close>

theorem first_loss_above_999_not_best:
  "snd (resume_block fs40 [] None) = Inr (VInt 0, VInt 999) \<and>
   valid_loss c0 0 = Finite 1000 \<and>
   saved_best_losses (fst (train_cli c0 fs40 hp0 1 [] ''default'')) = [VInt 999]"
proof -
  have "saved_best_losses (fst (train_cli c0 fs40 hp0 1 [] ''default'')) = [VInt 999]"
    by code_simp
  then show ?thesis by (simp add: resume_block_def c0_def)
qed

text \<open>
  C10. With \<^verbatim>\<open>validation_interval >= 1\<close>, in a run that reaches the loop with an integer
  start epoch below \<^verbatim>\<open>num_epochs\<close>, a numeric \<^verbatim>\<open>best_loss\<close> and a non-empty training
  loader, the first batch has step 0, the test of line 183 holds there, and the batch is
  followed by the validation pass, the scheduler step and the save of the checkpoint of
  step 0.
\<close>

theorem first_batch_validates_and_saves:
  assumes "1 \<le> validation_interval hp"
    and "snd (resume_block fs resume args) = Inr (VInt e0, b)"
    and "num_of b = Some r"
    and "e0 < n" "0 < n_batches c"
  shows "int 0 mod validation_interval hp = 0 \<and>
         (\<exists>rest. fst (train_main c fs hp n resume name args) =
            setup_events hp name @ fst (resume_block fs resume args) @
            [PrintEpoch e0 (n - 1), TrainBatch e0 0 0, Validation 0,
             SchedulerStep (valid_loss c 0),
             TorchSave (save_path hp name 0)
               (checkpoint_record c 0 e0
                  (if float_lt r (valid_loss c 0) then b else VFloat (valid_loss c 0))),
             PrintSaved (save_path hp name 0)] @ rest)"
proof -
  have nz: "validation_interval hp \<noteq> 0" using assms(1) by simp
  show ?thesis
    using train_main_first_batch [OF assms(2,4,5), of hp name]
    by (simp add: train_batch_step0 [OF nz assms(3)])
qed

text \<open>
  C10 at a concrete input: a fresh run with interval 5.
\<close>

theorem first_batch_validates_and_saves_witness:
  "1 \<le> validation_interval hp0 \<and>
   snd (resume_block fs40 [] None) = Inr (VInt 0, VInt 999) \<and>
   (\<exists>rest. fst (train_main c0 fs40 hp0 1 [] ''default'' None) =
      setup_events hp0 ''default'' @ fst (resume_block fs40 [] None) @
      [PrintEpoch 0 0, TrainBatch 0 0 0, Validation 0, SchedulerStep (Finite 1000),
       TorchSave ''checkpoints/default/default_checkpoint_0000.pt''
         (checkpoint_record c0 0 0 (VInt 999)),
       PrintSaved ''checkpoints/default/default_checkpoint_0000.pt''] @ rest)"
proof -
  have a: "1 \<le> validation_interval hp0" by (simp add: hp0_def)
  have b: "snd (resume_block fs40 [] None) = Inr (VInt 0, VInt 999)"
    by (simp add: resume_block_def)
  have d: "num_of (VInt 999) = Some (Finite 999)" by simp
  have e: "(0::int) < 1" "0 < n_batches c0" by (simp_all add: c0_def)
  have p: "save_path hp0 ''default'' 0 = ''checkpoints/default/default_checkpoint_0000.pt''"
    by code_simp
  have v: "valid_loss c0 0 = Finite 1000" by (simp add: c0_def)
  show ?thesis
    using first_batch_validates_and_saves [OF a b d e, of "''default''"] a b by (simp add: p v)
qed

end
